theory Spec2Isabelle
  imports Complex_Main "HOL-Library.Sublist"
begin

section \<open>JavaScript values\<close>

text \<open>
  The orchestration code (\<open>lib/mcpClient.ts\<close>, \<open>lib/actions.ts\<close>) and the math tool server
  (\<open>mcp-tools/math-server.js\<close>) exchange JSON values. A JavaScript number is an IEEE double:
  a finite double is a rational number, and the three special values are kept apart.
  Negative zero is identified with zero; the code below only compares numbers, tests them
  with \<open>Number.isInteger\<close> and prints them, and all three treat \<open>-0\<close> like \<open>0\<close>.
\<close>

datatype jsnum = Fin rat | PosInf | NegInf | NaN

datatype json =
    JNull
  | JBool bool
  | JNum jsnum
  | JStr string
  | JArr "json list"
  | JObj "(string \<times> json) list"

text \<open>
  Parts of the language runtime that are not repository code and that no definition below
  fixes: \<open>Number.prototype.toString\<close> on a number that is not a safe integer, and the
  multiplication of doubles (it rounds).
\<close>

record builtins =
  number_toString :: "rat \<Rightarrow> string"
  number_mul :: "jsnum \<Rightarrow> jsnum \<Rightarrow> jsnum"

subsection \<open>Numbers\<close>

fun num_gt :: "jsnum \<Rightarrow> jsnum \<Rightarrow> bool" where
  "num_gt (Fin a) (Fin b) = (a > b)"
| "num_gt PosInf (Fin b) = True"
| "num_gt PosInf NegInf = True"
| "num_gt (Fin a) NegInf = True"
| "num_gt a b = False"

definition num_lt :: "jsnum \<Rightarrow> jsnum \<Rightarrow> bool" where
  "num_lt a b = num_gt b a"

text \<open>\<open>a <= b\<close>: false as soon as one side is \<open>NaN\<close>.\<close>

fun num_le :: "jsnum \<Rightarrow> jsnum \<Rightarrow> bool" where
  "num_le NaN b = False"
| "num_le a NaN = False"
| "num_le a b = (\<not> num_gt a b)"

definition is_integer :: "rat \<Rightarrow> bool" where
  "is_integer q = (snd (quotient_of q) = 1)"

definition Number_isInteger :: "jsnum \<Rightarrow> bool" where
  "Number_isInteger n = (case n of Fin q \<Rightarrow> is_integer q | _ \<Rightarrow> False)"

definition is_safe_integer :: "rat \<Rightarrow> bool" where
  "is_safe_integer q = (is_integer q \<and> \<bar>q\<bar> \<le> 9007199254740992)"

fun nat_to_string :: "nat \<Rightarrow> string" where
  "nat_to_string n =
     (if n < 10 then [''0123456789'' ! n]
      else nat_to_string (n div 10) @ [''0123456789'' ! (n mod 10)])"

definition int_to_string :: "int \<Rightarrow> string" where
  "int_to_string i =
     (if i < 0 then CHR ''-'' # nat_to_string (nat (- i)) else nat_to_string (nat i))"

text \<open>
  \<open>String(n)\<close> and \<open>`${n}`\<close>: an integer of magnitude at most \<open>2^53\<close> prints as its decimal
  digits; every other finite number is left to \<open>number_toString\<close>.
\<close>

definition num_to_string :: "builtins \<Rightarrow> jsnum \<Rightarrow> string" where
  "num_to_string js n =
     (case n of
        NaN \<Rightarrow> ''NaN''
      | PosInf \<Rightarrow> ''Infinity''
      | NegInf \<Rightarrow> ''-Infinity''
      | Fin q \<Rightarrow> if is_safe_integer q then int_to_string (fst (quotient_of q))
                 else number_toString js q)"

subsection \<open>Strings and \<open>JSON.stringify\<close>\<close>

text \<open>\<open>Array.prototype.join\<close> on strings.\<close>

fun join :: "string \<Rightarrow> string list \<Rightarrow> string" where
  "join sep [] = []"
| "join sep [x] = x"
| "join sep (x # y # ys) = x @ sep @ join sep (y # ys)"

definition quote_char :: "char \<Rightarrow> string" where
  "quote_char c =
     (if c = CHR 0x22 then [CHR 0x5C, CHR 0x22]
      else if c = CHR 0x5C then [CHR 0x5C, CHR 0x5C]
      else if c = CHR 0x08 then [CHR 0x5C, CHR ''b'']
      else if c = CHR 0x0C then [CHR 0x5C, CHR ''f'']
      else if c = CHR 0x0A then [CHR 0x5C, CHR ''n'']
      else if c = CHR 0x0D then [CHR 0x5C, CHR ''r'']
      else if c = CHR 0x09 then [CHR 0x5C, CHR ''t'']
      else if (of_char c :: nat) < 32
        then [CHR 0x5C, CHR ''u'', CHR ''0'', CHR ''0'',
              ''0123456789abcdef'' ! (of_char c div 16),
              ''0123456789abcdef'' ! (of_char c mod 16)]
      else [c])"

definition quote :: "string \<Rightarrow> string" where
  "quote s = CHR 0x22 # concat (map quote_char s) @ [CHR 0x22]"

text \<open>
  \<open>JSON.stringify(v, null, gap)\<close> at the indentation \<open>ind\<close>; the empty \<open>gap\<close> is the
  compact form. The fields of \<open>JObj\<close> are the object's own properties in enumeration order.
\<close>

fun stringify_gap :: "builtins \<Rightarrow> string \<Rightarrow> string \<Rightarrow> json \<Rightarrow> string" where
  "stringify_gap js gap ind JNull = ''null''"
| "stringify_gap js gap ind (JBool b) = (if b then ''true'' else ''false'')"
| "stringify_gap js gap ind (JNum n) =
     (case n of Fin q \<Rightarrow> num_to_string js n | _ \<Rightarrow> ''null'')"
| "stringify_gap js gap ind (JStr s) = quote s"
| "stringify_gap js gap ind (JArr xs) =
     (if xs = [] then ''[]''
      else if gap = [] then
        ''['' @ join '','' (map (stringify_gap js gap (ind @ gap)) xs) @ '']''
      else ''['' @ [CHR 0x0A] @ (ind @ gap)
           @ join ('','' @ [CHR 0x0A] @ (ind @ gap))
               (map (stringify_gap js gap (ind @ gap)) xs)
           @ [CHR 0x0A] @ ind @ '']'')"
| "stringify_gap js gap ind (JObj fs) =
     (if fs = [] then ''{}''
      else if gap = [] then
        ''{'' @ join '',''
                 (map (\<lambda>p. quote (fst p) @ '':'' @ stringify_gap js gap (ind @ gap) (snd p)) fs)
            @ ''}''
      else ''{'' @ [CHR 0x0A] @ (ind @ gap)
           @ join ('','' @ [CHR 0x0A] @ (ind @ gap))
               (map (\<lambda>p. quote (fst p) @ '': '' @ stringify_gap js gap (ind @ gap) (snd p)) fs)
           @ [CHR 0x0A] @ ind @ ''}'')"

text \<open>\<open>JSON.stringify(v)\<close> and \<open>JSON.stringify(v, null, 2)\<close>.\<close>

definition JSON_stringify :: "builtins \<Rightarrow> json \<Rightarrow> string" where
  "JSON_stringify js v = stringify_gap js [] [] v"

definition JSON_stringify2 :: "builtins \<Rightarrow> json \<Rightarrow> string" where
  "JSON_stringify2 js v = stringify_gap js ''  '' [] v"

text \<open>Truthiness, as \<open>!v\<close> and \<open>v || w\<close> test it.\<close>

fun truthy :: "json \<Rightarrow> bool" where
  "truthy JNull = False"
| "truthy (JBool b) = b"
| "truthy (JNum n) = (n \<noteq> Fin 0 \<and> n \<noteq> NaN)"
| "truthy (JStr s) = (s \<noteq> [])"
| "truthy (JArr xs) = True"
| "truthy (JObj fs) = True"

text \<open>
  The string conversion \<open>Array.prototype.join\<close> applies to an element: a string is itself,
  an array is its elements joined by commas (\<open>null\<close> elements empty), an object is
  \<open>[object Object]\<close>.
\<close>

fun ToString :: "builtins \<Rightarrow> json \<Rightarrow> string" where
  "ToString js JNull = ''null''"
| "ToString js (JBool b) = (if b then ''true'' else ''false'')"
| "ToString js (JNum n) = num_to_string js n"
| "ToString js (JStr s) = s"
| "ToString js (JArr xs) =
     join '','' (map (\<lambda>x. if x = JNull then [] else ToString js x) xs)"
| "ToString js (JObj fs) = ''[object Object]''"

text \<open>
  Property access \<open>v?.k\<close> for the keys the code reads (\<open>n\<close>, \<open>min\<close>, \<open>max\<close>, \<open>text\<close>):
  \<open>None\<close> is \<open>undefined\<close>. Only an object has such a property.
\<close>

fun get_prop :: "json \<Rightarrow> string \<Rightarrow> json option" where
  "get_prop (JObj fs) k = map_of fs k"
| "get_prop v k = None"

section \<open>The math tool server (\<open>mcp-tools/math-server.js\<close>)\<close>

datatype error_code = InvalidParams | MethodNotFound | InternalError

text \<open>An exception: an \<open>McpError\<close> with its code, or any other \<open>Error\<close>.\<close>

datatype error = McpError error_code string | Error string

text \<open>
  The \<open>content\<close> of a tool-call result as the client reads it. The client tests it
  dynamically, so every shape is kept: absent (\<open>undefined\<close>), \<open>null\<close>, a boolean, a number, a
  string, an array of content items, or another object. A content item is an object, given
  by its fields: the result schema of the protocol, against which the client's request
  validates every answer, admits no other item.
\<close>

type_synonym item = "(string \<times> json) list"

datatype content =
    CAbsent
  | CNull
  | CBool bool
  | CNum jsnum
  | CStr string
  | CItems "item list"
  | CObj "(string \<times> json) list"

definition text_item :: "string \<Rightarrow> item" where
  "text_item t = [(''type'', JStr ''text''), (''text'', JStr t)]"

definition handleError :: "error \<Rightarrow> error" where
  "handleError e = (case e of McpError c m \<Rightarrow> McpError c m | Error m \<Rightarrow> McpError InternalError m)"

definition validateNumber :: "json option \<Rightarrow> string \<Rightarrow> error + jsnum" where
  "validateNumber v name =
     (case v of
        Some (JNum n) \<Rightarrow>
          if n = NaN then Inl (McpError InvalidParams (name @ '' must be a valid number''))
          else Inr n
      | _ \<Rightarrow> Inl (McpError InvalidParams (name @ '' must be a valid number'')))"

text \<open>
  The loop \<open>for (let i = 2; i <= n; i++) result *= i\<close>. It is only reached with a number
  that passed \<open>Number.isInteger\<close> and is at least 0: \<open>i\<close> runs over the integers from 2 to
  that number.
\<close>

definition loop_bound :: "jsnum \<Rightarrow> nat" where
  "loop_bound n = (case n of Fin q \<Rightarrow> nat \<lfloor>q\<rfloor> | _ \<Rightarrow> 0)"

definition factorial_loop :: "builtins \<Rightarrow> jsnum \<Rightarrow> jsnum" where
  "factorial_loop js n =
     foldl (\<lambda>result i. number_mul js result (Fin (of_nat i))) (Fin 1) [2 ..< Suc (loop_bound n)]"

definition factorial_case :: "builtins \<Rightarrow> json \<Rightarrow> error + content" where
  "factorial_case js args =
     (case validateNumber (get_prop args ''n'') ''n'' of
        Inl e \<Rightarrow> Inl e
      | Inr n \<Rightarrow>
          if num_lt n (Fin 0) \<or> \<not> Number_isInteger n
          then Inl (McpError InvalidParams ''Factorial requires a non-negative integer'')
          else if num_gt n (Fin 170)
          then Inl (McpError InvalidParams ''Number too large (would exceed precision)'')
          else
            (let result = factorial_loop js n
             in Inr (CItems [text_item (num_to_string js n @ ''! = '' @ num_to_string js result)])))"

text \<open>\<open>args?.k ?? d\<close>.\<close>

definition nullish_default :: "json option \<Rightarrow> json \<Rightarrow> json" where
  "nullish_default v d = (case v of None \<Rightarrow> d | Some JNull \<Rightarrow> d | Some x \<Rightarrow> x)"

definition random_case :: "builtins \<Rightarrow> json \<Rightarrow> error + content" where
  "random_case js args =
     (let min = nullish_default (get_prop args ''min'') (JNum (Fin 0));
          max = nullish_default (get_prop args ''max'') (JNum (Fin 100))
      in case validateNumber (Some min) ''min'' of
           Inl e \<Rightarrow> Inl e
         | Inr lo \<Rightarrow>
             (case validateNumber (Some max) ''max'' of
                Inl e \<Rightarrow> Inl e
              | Inr hi \<Rightarrow>
                  if num_gt lo hi
                  then Inl (McpError InvalidParams ''min cannot be greater than max'')
                  else
                    (let result = Fin 10
                     in Inr (CItems [text_item (''Random number between '' @ num_to_string js lo
                               @ '' and '' @ num_to_string js hi
                               @ '': '' @ num_to_string js result)]))))"

text \<open>
  The handler of \<open>tools/call\<close>. Of the ten cases of its \<open>switch\<close>, \<open>factorial\<close> and \<open>random\<close>
  are written out; the other eight tool cases are the parameter \<open>other\<close>; an unknown name
  is the \<open>default\<close> case. Whatever a case throws goes through \<open>handleError\<close>.
\<close>

definition CallTool_handler ::
  "builtins \<Rightarrow> (string \<Rightarrow> json \<Rightarrow> error + content) \<Rightarrow> string \<Rightarrow> json \<Rightarrow> error + content" where
  "CallTool_handler js other name args =
     (case
        (if name = ''factorial'' then factorial_case js args
         else if name = ''random'' then random_case js args
         else if name \<in> set [''add'', ''multiply'', ''power'', ''is_prime'', ''fibonacci'',
                              ''reverse_string'', ''word_count'', ''current_time'']
         then other name args
         else Inl (McpError MethodNotFound (''Unknown tool: '' @ name)))
      of Inl e \<Rightarrow> Inl (handleError e)
       | Inr r \<Rightarrow> Inr r)"

section \<open>The client (\<open>lib/mcpClient.ts\<close>)\<close>

subsection \<open>Paths\<close>

text \<open>
  \<open>path.isAbsolute\<close> and \<open>path.resolve\<close> of the runtime's \<open>path\<close> module, in its POSIX
  flavour. \<open>path.resolve\<close> reads its arguments from the right until the path built so far
  is absolute, falls back on the working directory, and normalises the result: empty and
  \<open>.\<close> segments vanish, a \<open>..\<close> segment removes the segment before it.
\<close>

definition path_isAbsolute :: "string \<Rightarrow> bool" where
  "path_isAbsolute p = (case p of [] \<Rightarrow> False | c # cs \<Rightarrow> c = CHR ''/'')"

fun segments :: "string \<Rightarrow> string list" where
  "segments [] = [[]]"
| "segments (c # cs) =
     (if c = CHR ''/'' then [] # segments cs
      else (case segments cs of [] \<Rightarrow> [[c]] | s # ss \<Rightarrow> (c # s) # ss))"

definition normalize_step :: "bool \<Rightarrow> string list \<Rightarrow> string \<Rightarrow> string list" where
  "normalize_step allowAboveRoot res seg =
     (if seg = [] \<or> seg = ''.'' then res
      else if seg = ''..'' then
        (if res \<noteq> [] \<and> last res \<noteq> ''..'' then butlast res
         else if allowAboveRoot then res @ [''..'']
         else res)
      else res @ [seg])"

definition normalizeString :: "string \<Rightarrow> bool \<Rightarrow> string" where
  "normalizeString path allowAboveRoot =
     join ''/'' (foldl (normalize_step allowAboveRoot) [] (segments path))"

text \<open>
  The scan of \<open>path.resolve\<close> over its arguments, rightmost first, the working directory
  last: the path built so far and whether it is absolute.
\<close>

fun resolve_scan :: "string list \<Rightarrow> string \<Rightarrow> string \<times> bool" where
  "resolve_scan [] resolvedPath = (resolvedPath, False)"
| "resolve_scan (p # ps) resolvedPath =
     (if p = [] then resolve_scan ps resolvedPath
      else if path_isAbsolute p then (p @ ''/'' @ resolvedPath, True)
      else resolve_scan ps (p @ ''/'' @ resolvedPath))"

definition path_resolve :: "string \<Rightarrow> string list \<Rightarrow> string" where
  "path_resolve process_cwd paths =
     (case resolve_scan (rev paths @ [process_cwd]) [] of
        (resolvedPath, resolvedAbsolute) \<Rightarrow>
          (let n = normalizeString resolvedPath (\<not> resolvedAbsolute)
           in if resolvedAbsolute then ''/'' @ n
              else if n \<noteq> [] then n else ''.''))"

text \<open>
  \<open>serverInfo.args.map(arg => path.isAbsolute(arg) ? arg : path.resolve(process.cwd(), arg))\<close>
\<close>

definition resolvedArgs :: "string \<Rightarrow> string list \<Rightarrow> string list" where
  "resolvedArgs process_cwd as =
     map (\<lambda>arg. if path_isAbsolute arg then arg else path_resolve process_cwd [process_cwd, arg]) as"

subsection \<open>Data\<close>

record MCPServerConfig =
  cfg_command :: string
  cfg_args :: "string list"
  cfg_env :: "(string \<times> string) list option"

text \<open>A tool as a server lists it, and as it is advertised to the reasoning model.\<close>

record tool_info =
  ti_name :: string
  ti_description :: "string option"
  ti_inputSchema :: json

record tool =
  tool_name :: string
  tool_description :: string
  tool_input_schema :: json

text \<open>
  A connected tool server, seen from the client: what it answers to \<open>tools/list\<close> and to
  \<open>tools/call\<close> with a name and arguments (\<open>Inl\<close>: the request is rejected).
\<close>

record server =
  list_tools :: "error + tool_info list"
  call_tool :: "string \<Rightarrow> json \<Rightarrow> error + content"

text \<open>Content blocks of a model response, conversation messages, and steps.\<close>

datatype block =
    TextBlock string
  | ToolUseBlock string string json
  | OtherBlock string

datatype msg =
    UserText string
  | AssistantBlocks "block list"
  | UserToolResult string string

datatype step_type = text_step | tool_use_step | tool_result_step

datatype step = Step step_type string

text \<open>
  What the program does to the outside, in order: the message logs sent to the reasoning
  model, the \<open>tools/call\<close> requests (server name, tool name, arguments), the connections
  opened and the connections on which \<open>close\<close> was called.
\<close>

record world =
  model_calls :: "msg list list"
  tool_calls :: "(string \<times> string \<times> json) list"
  opened :: "string list"
  closed :: "string list"

text \<open>
  What the program reads from the outside: the API key, the parsed configuration file
  (its servers as \<open>Object.entries\<close> lists them), the working directory, what connecting a
  transport with a command, arguments and environment gives, and the reasoning model, a
  function of the tool list and the message log. The model name, the token limit and the
  system prompt are constants of every request and are not written.
\<close>

record sys =
  api_key :: "string option"
  config :: "error + (string \<times> MCPServerConfig) list"
  cwd :: string
  connect :: "string \<Rightarrow> string list \<Rightarrow> (string \<times> string) list option \<Rightarrow> error + server"
  llm :: "tool list \<Rightarrow> msg list \<Rightarrow> error + block list"
  runtime :: builtins

record MCPClient =
  servers :: "(string \<times> server) list"
  availableTools :: "tool list"

text \<open>\<open>Map.prototype.set\<close>: a known key keeps its place, a new key goes last.\<close>

fun map_set :: "('k \<times> 'v) list \<Rightarrow> 'k \<Rightarrow> 'v \<Rightarrow> ('k \<times> 'v) list" where
  "map_set [] k v = [(k, v)]"
| "map_set ((k', v') # rest) k v =
     (if k' = k then (k, v) # rest else (k', v') # map_set rest k v)"

subsection \<open>\<open>connectToServers\<close>\<close>

definition to_tool :: "tool_info \<Rightarrow> tool" where
  "to_tool t =
     \<lparr> tool_name = ti_name t,
       tool_description =
         (case ti_description t of None \<Rightarrow> ti_name t
          | Some d \<Rightarrow> if d = [] then ti_name t else d),
       tool_input_schema = ti_inputSchema t \<rparr>"

fun connect_loop ::
  "sys \<Rightarrow> (string \<times> MCPServerConfig) list \<Rightarrow> tool list \<Rightarrow> MCPClient \<Rightarrow> world
     \<Rightarrow> (error + tool list) \<times> MCPClient \<times> world" where
  "connect_loop sy [] tools c w = (Inr tools, c, w)"
| "connect_loop sy ((serverName, serverInfo) # rest) tools c w =
     (case connect sy (cfg_command serverInfo) (resolvedArgs (cwd sy) (cfg_args serverInfo))
             (cfg_env serverInfo) of
        Inl e \<Rightarrow> (Inl e, c, w)
      | Inr srv \<Rightarrow>
          (let w' = w\<lparr>opened := opened w @ [serverName]\<rparr>;
               c' = c\<lparr>servers := map_set (servers c) serverName srv\<rparr>
           in case list_tools srv of
                Inl e \<Rightarrow> (Inl e, c', w')
              | Inr ts \<Rightarrow> connect_loop sy rest (tools @ map to_tool ts) c' w'))"

definition connectToServers :: "sys \<Rightarrow> MCPClient \<Rightarrow> world \<Rightarrow> (error + unit) \<times> MCPClient \<times> world" where
  "connectToServers sy c w =
     (case config sy of
        Inl e \<Rightarrow> (Inl e, c, w)
      | Inr mcpServers \<Rightarrow>
          (case connect_loop sy mcpServers [] c w of
             (Inl e, c', w') \<Rightarrow> (Inl e, c', w')
           | (Inr tools, c', w') \<Rightarrow> (Inr (), c'\<lparr>availableTools := tools\<rparr>, w')))"

subsection \<open>\<open>executeTool\<close>\<close>

text \<open>\<open>c.text || JSON.stringify(c)\<close>, as \<open>join\<close> then prints it.\<close>

definition item_text :: "builtins \<Rightarrow> item \<Rightarrow> string" where
  "item_text js c =
     (case map_of c ''text'' of
        None \<Rightarrow> JSON_stringify js (JObj c)
      | Some v \<Rightarrow> if truthy v then ToString js v else JSON_stringify js (JObj c))"

definition no_output :: string where
  "no_output = ''Tool executed successfully (no output).''"

text \<open>The reading of \<open>result.content\<close>, lines 182 to 191.\<close>

fun format_content :: "builtins \<Rightarrow> content \<Rightarrow> string" where
  "format_content js CAbsent = no_output"
| "format_content js CNull = no_output"
| "format_content js (CBool b) = (if \<not> b then no_output else JSON_stringify2 js (JBool b))"
| "format_content js (CNum n) =
     (if \<not> truthy (JNum n) then no_output else JSON_stringify2 js (JNum n))"
| "format_content js (CStr s) = (if s = [] then no_output else s)"
| "format_content js (CItems cs) = join [CHR 0x0A] (map (item_text js) cs)"
| "format_content js (CObj fs) = JSON_stringify2 js (JObj fs)"

definition not_found :: "string \<Rightarrow> string" where
  "not_found toolName = ''Tool '' @ [CHR 0x27] @ toolName @ [CHR 0x27] @ '' not found in any server.''"

fun executeTool ::
  "builtins \<Rightarrow> (string \<times> server) list \<Rightarrow> string \<Rightarrow> json \<Rightarrow> world \<Rightarrow> string \<times> world" where
  "executeTool js [] toolName input w = (not_found toolName, w)"
| "executeTool js ((serverName, connection) # rest) toolName input w =
     (let w' = w\<lparr>tool_calls := tool_calls w @ [(serverName, toolName, input)]\<rparr>
      in case call_tool connection toolName input of
           Inl err \<Rightarrow> executeTool js rest toolName input w'
         | Inr content \<Rightarrow> (format_content js content, w'))"

subsection \<open>\<open>processQuery\<close>\<close>

record qstate =
  steps :: "step list"
  messages :: "msg list"

text \<open>
  The \<open>for\<close> loop over \<open>response.content\<close> (lines 117 to 152): \<open>response\<close> is the whole
  content, the list argument what is left to scan. The result tells whether a tool was used.
\<close>

fun scan_content ::
  "builtins \<Rightarrow> (string \<times> server) list \<Rightarrow> block list \<Rightarrow> block list \<Rightarrow> qstate \<Rightarrow> world
     \<Rightarrow> bool \<times> qstate \<times> world" where
  "scan_content js srvs response [] st w = (False, st, w)"
| "scan_content js srvs response (TextBlock t # rest) st w =
     scan_content js srvs response rest (st\<lparr>steps := steps st @ [Step text_step t]\<rparr>) w"
| "scan_content js srvs response (ToolUseBlock tid toolName toolInput # rest) st w =
     (case executeTool js srvs toolName toolInput w of
        (toolResult, w') \<Rightarrow>
          (True,
           st\<lparr>steps := steps st
                 @ [Step tool_use_step
                      (''Tool: '' @ toolName @ [CHR 0x0A] @ ''Input:'' @ [CHR 0x0A]
                         @ JSON_stringify2 js toolInput),
                    Step tool_result_step toolResult],
              messages := messages st @ [AssistantBlocks response, UserToolResult tid toolResult]\<rparr>,
           w'))"
| "scan_content js srvs response (OtherBlock ty # rest) st w =
     scan_content js srvs response rest st w"

text \<open>
  The \<open>while (true)\<close> loop. It has no bound on the number of turns; a run that never
  leaves it has the value \<open>None\<close>.
\<close>

partial_function (option) conversation ::
  "sys \<Rightarrow> MCPClient \<Rightarrow> block list \<Rightarrow> qstate \<Rightarrow> world \<Rightarrow> ((error + step list) \<times> world) option" where
  "conversation sy c response st w =
     (case scan_content (runtime sy) (servers c) response response st w of
        (usedTool, st', w') \<Rightarrow>
          if \<not> usedTool then Some (Inr (steps st'), w')
          else
            (case llm sy (availableTools c) (messages st') of
               Inl e \<Rightarrow> Some (Inl e, w'\<lparr>model_calls := model_calls w' @ [messages st']\<rparr>)
             | Inr response' \<Rightarrow>
                 conversation sy c response' st'
                   (w'\<lparr>model_calls := model_calls w' @ [messages st']\<rparr>)))"

declare conversation.simps [code]

definition processQuery ::
  "sys \<Rightarrow> MCPClient \<Rightarrow> string \<Rightarrow> world \<Rightarrow> ((error + step list) \<times> world) option" where
  "processQuery sy c query w =
     (if availableTools c = []
      then Some (Inl (Error ''No tools available. Please call connectToServers() first.''), w)
      else
        (let st = \<lparr> steps = [], messages = [UserText query] \<rparr>;
             w' = w\<lparr>model_calls := model_calls w @ [messages st]\<rparr>
         in case llm sy (availableTools c) (messages st) of
              Inl e \<Rightarrow> Some (Inl e, w')
            | Inr response \<Rightarrow> conversation sy c response st w'))"

subsection \<open>\<open>cleanup\<close> and the session entry point \<open>runQuery\<close> (\<open>lib/actions.ts\<close>)\<close>

text \<open>
  \<open>cleanup\<close> calls \<open>close\<close> on every registered connection, ignores a failing \<open>close\<close>, and
  empties the registry and the tool list.
\<close>

definition cleanup :: "MCPClient \<Rightarrow> world \<Rightarrow> MCPClient \<times> world" where
  "cleanup c w =
     (c\<lparr>servers := [], availableTools := []\<rparr>,
      w\<lparr>closed := closed w @ map fst (servers c)\<rparr>)"

definition fresh_client :: MCPClient where
  "fresh_client = \<lparr> servers = [], availableTools = [] \<rparr>"

definition new_MCPClient :: "sys \<Rightarrow> error + MCPClient" where
  "new_MCPClient sy =
     (case api_key sy of
        None \<Rightarrow> Inl (Error ''Anthropic API key is required.'')
      | Some k \<Rightarrow>
          if k = [] then Inl (Error ''Anthropic API key is required.'')
          else Inr fresh_client)"

definition runQuery :: "sys \<Rightarrow> string \<Rightarrow> world \<Rightarrow> ((error + step list) \<times> world) option" where
  "runQuery sy query w =
     (case new_MCPClient sy of
        Inl e \<Rightarrow> Some (Inl e, w)
      | Inr client \<Rightarrow>
          (case connectToServers sy client w of
             (Inl e, c1, w1) \<Rightarrow> Some (Inl e, w1)
           | (Inr u, c1, w1) \<Rightarrow>
               (case processQuery sy c1 query w1 of
                  None \<Rightarrow> None
                | Some (Inl e, w2) \<Rightarrow> Some (Inl e, w2)
                | Some (Inr result, w2) \<Rightarrow>
                    (case cleanup c1 w2 of (c3, w3) \<Rightarrow> Some (Inr result, w3)))))"

text \<open>The connections that were opened and on which \<open>close\<close> was never called.\<close>

definition still_open :: "world \<Rightarrow> string list" where
  "still_open w = filter (\<lambda>n. n \<notin> set (closed w)) (opened w)"

section \<open>The math server behind a connection\<close>

text \<open>The handler of \<open>tools/list\<close>: the ten tools, in the order of the source.\<close>

definition number_property :: "string \<Rightarrow> json" where
  "number_property d = JObj [(''type'', JStr ''number''), (''description'', JStr d)]"

definition string_property :: "string \<Rightarrow> json" where
  "string_property d = JObj [(''type'', JStr ''string''), (''description'', JStr d)]"

definition object_schema :: "(string \<times> json) list \<Rightarrow> string list \<Rightarrow> json" where
  "object_schema props required =
     JObj ([(''type'', JStr ''object''), (''properties'', JObj props)]
           @ (if required = [] then [] else [(''required'', JArr (map JStr required))]))"

definition ListTools_handler :: "tool_info list" where
  "ListTools_handler =
     [\<lparr> ti_name = ''add'', ti_description = Some ''Add two numbers together'',
        ti_inputSchema = object_schema
          [(''a'', number_property ''First number''), (''b'', number_property ''Second number'')]
          [''a'', ''b''] \<rparr>,
      \<lparr> ti_name = ''multiply'', ti_description = Some ''Multiply two numbers'',
        ti_inputSchema = object_schema
          [(''a'', number_property ''First number''), (''b'', number_property ''Second number'')]
          [''a'', ''b''] \<rparr>,
      \<lparr> ti_name = ''power'', ti_description = Some ''Raise a number to a power'',
        ti_inputSchema = object_schema
          [(''base'', number_property ''Base number''), (''exponent'', number_property ''Exponent'')]
          [''base'', ''exponent''] \<rparr>,
      \<lparr> ti_name = ''factorial'', ti_description = Some ''Calculate the factorial of a number'',
        ti_inputSchema = object_schema [(''n'', number_property ''Non-negative integer'')] [''n''] \<rparr>,
      \<lparr> ti_name = ''is_prime'', ti_description = Some ''Check if a number is prime'',
        ti_inputSchema = object_schema [(''n'', number_property ''Number to check'')] [''n''] \<rparr>,
      \<lparr> ti_name = ''fibonacci'', ti_description = Some ''Calculate the nth Fibonacci number'',
        ti_inputSchema = object_schema
          [(''n'', number_property ''Position in sequence (0-based)'')] [''n''] \<rparr>,
      \<lparr> ti_name = ''random'',
        ti_description = Some ''Generate a random number between min and max'',
        ti_inputSchema = object_schema
          [(''min'', JObj [(''type'', JStr ''number''), (''description'', JStr ''Minimum value''),
                           (''default'', JNum (Fin 0))]),
           (''max'', JObj [(''type'', JStr ''number''), (''description'', JStr ''Maximum value''),
                           (''default'', JNum (Fin 100))])]
          [] \<rparr>,
      \<lparr> ti_name = ''reverse_string'', ti_description = Some ''Reverse a string'',
        ti_inputSchema = object_schema [(''text'', string_property ''Text to reverse'')] [''text''] \<rparr>,
      \<lparr> ti_name = ''word_count'', ti_description = Some ''Count words in text'',
        ti_inputSchema = object_schema [(''text'', string_property ''Text to analyze'')] [''text''] \<rparr>,
      \<lparr> ti_name = ''current_time'', ti_description = Some ''Get current date and time'',
        ti_inputSchema = object_schema
          [(''format'',
            JObj [(''type'', JStr ''string''),
                  (''description'',
                   JStr (''Format: '' @ [CHR 0x27] @ ''iso'' @ [CHR 0x27] @ '' or ''
                         @ [CHR 0x27] @ ''local'' @ [CHR 0x27])),
                  (''default'', JStr ''iso'')])]
          [] \<rparr>]"

definition math_server :: "builtins \<Rightarrow> (string \<Rightarrow> json \<Rightarrow> error + content) \<Rightarrow> server" where
  "math_server js other =
     \<lparr> list_tools = Inr ListTools_handler, call_tool = CallTool_handler js other \<rparr>"

section \<open>Notions used in the statements\<close>

text \<open>The text steps of a list of blocks: one per text block, in order.\<close>

fun text_steps :: "block list \<Rightarrow> step list" where
  "text_steps [] = []"
| "text_steps (TextBlock t # bs) = Step text_step t # text_steps bs"
| "text_steps (b # bs) = text_steps bs"

definition is_tool_use :: "block \<Rightarrow> bool" where
  "is_tool_use b = (case b of ToolUseBlock tid n a \<Rightarrow> True | _ \<Rightarrow> False)"

text \<open>
  What the claim about \<open>random\<close> calls a valid argument: omitted (the default applies) or a
  number that is not \<open>NaN\<close>.
\<close>

definition number_or_omitted :: "json option \<Rightarrow> jsnum \<Rightarrow> jsnum option" where
  "number_or_omitted v d =
     (case v of
        None \<Rightarrow> Some d
      | Some (JNum n) \<Rightarrow> if n = NaN then None else Some n
      | Some _ \<Rightarrow> None)"

section \<open>Concrete instances\<close>

text \<open>
  A runtime for the examples: every number in them is a safe integer, and products are
  exact.
\<close>

definition unsafe_toString :: "rat \<Rightarrow> string" where
  "unsafe_toString q = ''?''"

fun exact_mul :: "jsnum \<Rightarrow> jsnum \<Rightarrow> jsnum" where
  "exact_mul (Fin a) (Fin b) = Fin (a * b)"
| "exact_mul a b = NaN"

definition js0 :: builtins where
  "js0 = \<lparr> number_toString = unsafe_toString, number_mul = exact_mul \<rparr>"

definition no_other_tools :: "string \<Rightarrow> json \<Rightarrow> error + content" where
  "no_other_tools name a = Inl (Error ''not modelled'')"

definition w0 :: world where
  "w0 = \<lparr> model_calls = [], tool_calls = [], opened = [], closed = [] \<rparr>"

definition connect_math ::
  "string \<Rightarrow> string list \<Rightarrow> (string \<times> string) list option \<Rightarrow> error + server" where
  "connect_math cmd as e = Inr (math_server js0 no_other_tools)"

text \<open>A reasoning model that is down, and one that answers with two text blocks.\<close>

definition llm_down :: "tool list \<Rightarrow> msg list \<Rightarrow> error + block list" where
  "llm_down tools msgs = Inl (Error ''529 overloaded'')"

definition llm_text :: "tool list \<Rightarrow> msg list \<Rightarrow> error + block list" where
  "llm_text tools msgs = Inr [TextBlock ''2 + 2 = 4'', TextBlock ''Anything else?'']"

text \<open>The setting of the repository's documentation: one configured server, the math server.\<close>

definition sys0 :: sys where
  "sys0 =
     \<lparr> api_key = Some ''sk-ant-test'',
       config = Inr [(''math-server'',
                      \<lparr> cfg_command = ''node'', cfg_args = [''./mcp-tools/math-server.js''],
                        cfg_env = None \<rparr>)],
       cwd = ''/app'',
       connect = connect_math,
       llm = llm_down,
       runtime = js0 \<rparr>"

text \<open>A second configured server whose process cannot be started.\<close>

definition connect_first_only ::
  "string \<Rightarrow> string list \<Rightarrow> (string \<times> string) list option \<Rightarrow> error + server" where
  "connect_first_only cmd as e =
     (if as = [''/app/mcp-tools/math-server.js''] then Inr (math_server js0 no_other_tools)
      else Inl (Error ''spawn ENOENT''))"

definition sys_two :: sys where
  "sys_two =
     sys0\<lparr>config := Inr [(''math-server'',
                           \<lparr> cfg_command = ''node'', cfg_args = [''./mcp-tools/math-server.js''],
                             cfg_env = None \<rparr>),
                          (''file-server'',
                           \<lparr> cfg_command = ''node'', cfg_args = [''./mcp-tools/file-server.js''],
                             cfg_env = None \<rparr>)],
          connect := connect_first_only\<rparr>"

definition client0 :: MCPClient where
  "client0 =
     \<lparr> servers = [(''math-server'', math_server js0 no_other_tools)],
       availableTools = map to_tool ListTools_handler \<rparr>"

definition st0 :: qstate where
  "st0 = \<lparr> steps = [], messages = [UserText ''What is 171 factorial?''] \<rparr>"

definition response0 :: "block list" where
  "response0 =
     [TextBlock ''Let me compute that.'',
      ToolUseBlock ''toolu_01'' ''random'' (JObj []),
      TextBlock ''and then'',
      ToolUseBlock ''toolu_02'' ''factorial'' (JObj [(''n'', JNum (Fin 5))])]"

text \<open>A server that rejects every call, one that answers every call, one that answers an empty text.\<close>

definition reject_all :: "string \<Rightarrow> json \<Rightarrow> error + content" where
  "reject_all name a = Inl (Error ''Connection closed'')"

definition broken_server :: server where
  "broken_server = \<lparr> list_tools = Inl (Error ''Connection closed''), call_tool = reject_all \<rparr>"

definition echo_call :: "string \<Rightarrow> json \<Rightarrow> error + content" where
  "echo_call name a = Inr (CStr name)"

definition echo_server :: server where
  "echo_server = \<lparr> list_tools = Inr [], call_tool = echo_call \<rparr>"

definition blank_call :: "string \<Rightarrow> json \<Rightarrow> error + content" where
  "blank_call name a = Inr (CItems [text_item []])"

definition blank_server :: server where
  "blank_server = \<lparr> list_tools = Inr [], call_tool = blank_call \<rparr>"

text \<open>
  A server that answers three content items: a text, an empty text, and an image (no
  \<open>text\<close> field).
\<close>

definition image_item :: item where
  "image_item = [(''type'', JStr ''image''), (''data'', JStr ''AAAA''),
                 (''mimeType'', JStr ''image/png'')]"

definition mixed_call :: "string \<Rightarrow> json \<Rightarrow> error + content" where
  "mixed_call name a = Inr (CItems [text_item ''first line'', text_item [], image_item])"

definition mixed_server :: server where
  "mixed_server = \<lparr> list_tools = Inr [], call_tool = mixed_call \<rparr>"

text \<open>
  A reasoning model that answers a query with \<open>response0\<close> (a text, a tool use, a text, a
  second tool use) and every longer log with one text block.
\<close>

definition llm_tool :: "tool list \<Rightarrow> msg list \<Rightarrow> error + block list" where
  "llm_tool tools msgs =
     (case msgs of
        [UserText q] \<Rightarrow> Inr response0
      | _ \<Rightarrow> Inr [TextBlock ''The number is 10.''])"


section \<open>The math server\<close>

lemma num_to_string_10: "num_to_string js (Fin 10) = ''10''"
  by (simp add: num_to_string_def is_safe_integer_def is_integer_def int_to_string_def)

lemma num_le_not_gt: "num_le a b \<Longrightarrow> \<not> num_gt a b"
  by (cases a; cases b) simp_all

lemma random_no_args:
  "CallTool_handler js0 no_other_tools ''random'' (JObj []) =
     Inr (CItems [text_item ''Random number between 0 and 100: 10''])"
  by (simp add: CallTool_handler_def random_case_def nullish_default_def
        validateNumber_def num_to_string_def is_safe_integer_def is_integer_def int_to_string_def)

text \<open>
  C10. The \<open>random\<close> tool is deterministic. Whenever \<open>min\<close> and \<open>max\<close> are each a number or
  omitted (defaults 0 and 100) and \<open>min <= max\<close>, the call succeeds and its only content
  item is the text \<open>Random number between ${min} and ${max}: 10\<close>: the produced value is
  10 whatever \<open>min\<close> and \<open>max\<close> are.
\<close>

theorem random_always_10:
  assumes "number_or_omitted (get_prop args ''min'') (Fin 0) = Some lo"
    and "number_or_omitted (get_prop args ''max'') (Fin 100) = Some hi"
    and "num_le lo hi"
  shows "CallTool_handler js other ''random'' args =
           Inr (CItems [text_item (''Random number between '' @ num_to_string js lo
                  @ '' and '' @ num_to_string js hi @ '': 10'')])"
proof -
  have lo: "validateNumber (Some (nullish_default (get_prop args ''min'') (JNum (Fin 0)))) ''min''
              = Inr lo"
    using assms(1)
    by (auto simp: number_or_omitted_def nullish_default_def validateNumber_def
        split: option.splits json.splits if_splits)
  have hi: "validateNumber (Some (nullish_default (get_prop args ''max'') (JNum (Fin 100)))) ''max''
              = Inr hi"
    using assms(2)
    by (auto simp: number_or_omitted_def nullish_default_def validateNumber_def
        split: option.splits json.splits if_splits)
  have "random_case js args =
          Inr (CItems [text_item (''Random number between '' @ num_to_string js lo
                  @ '' and '' @ num_to_string js hi @ '': 10'')])"
    using lo hi num_le_not_gt [OF assms(3)]
    by (simp add: random_case_def Let_def num_to_string_10)
  then show ?thesis
    by (simp add: CallTool_handler_def)
qed

theorem random_always_10_witness:
  "number_or_omitted (get_prop (JObj [(''min'', JNum (Fin 3))]) ''min'') (Fin 0) = Some (Fin 3)
   \<and> number_or_omitted (get_prop (JObj [(''min'', JNum (Fin 3))]) ''max'') (Fin 100) = Some (Fin 100)
   \<and> num_le (Fin 3) (Fin 100)
   \<and> CallTool_handler js0 no_other_tools ''random'' (JObj [(''min'', JNum (Fin 3))]) =
       Inr (CItems [text_item ''Random number between 3 and 100: 10''])"
proof -
  have a: "number_or_omitted (get_prop (JObj [(''min'', JNum (Fin 3))]) ''min'') (Fin 0)
             = Some (Fin 3)"
    and b: "number_or_omitted (get_prop (JObj [(''min'', JNum (Fin 3))]) ''max'') (Fin 100)
             = Some (Fin 100)"
    and c: "num_le (Fin 3) (Fin 100)"
    by (simp_all add: number_or_omitted_def)
  have "num_to_string js0 (Fin 3) = ''3''" "num_to_string js0 (Fin 100) = ''100''"
    by (simp_all add: num_to_string_def is_safe_integer_def is_integer_def int_to_string_def)
  then show ?thesis
    using random_always_10 [OF a b c, of js0 no_other_tools] a b c
    by simp
qed

section \<open>Tool invocation\<close>

lemma executeTool_all_fail:
  assumes "\<forall>p \<in> set srvs. isl (call_tool (snd p) toolName input)"
  shows "executeTool js srvs toolName input w =
           (not_found toolName,
            w\<lparr>tool_calls := tool_calls w @ map (\<lambda>p. (fst p, toolName, input)) srvs\<rparr>)"
  using assms
proof (induction srvs arbitrary: w)
  case Nil
  then show ?case by simp
next
  case (Cons p srvs)
  obtain n s where p: "p = (n, s)" by (cases p)
  from Cons.prems obtain e where e: "call_tool s toolName input = Inl e"
    by (auto simp: p isl_def)
  show ?case using Cons e by (simp add: p)
qed

lemma executeTool_first_success:
  assumes "\<forall>p \<in> set pre. isl (call_tool (snd p) toolName input)"
    and "call_tool s toolName input = Inr content"
  shows "executeTool js (pre @ (n, s) # rest) toolName input w =
           (format_content js content,
            w\<lparr>tool_calls := tool_calls w
                 @ map (\<lambda>p. (fst p, toolName, input)) (pre @ [(n, s)])\<rparr>)"
  using assms(1)
proof (induction pre arbitrary: w)
  case Nil
  then show ?case using assms(2) by simp
next
  case (Cons p pre)
  obtain m t where p: "p = (m, t)" by (cases p)
  from Cons.prems obtain e where e: "call_tool t toolName input = Inl e"
    by (auto simp: p isl_def)
  show ?case using Cons e by (simp add: p)
qed

text \<open>
  C6. The servers are tried one after the other in registration order. When every server
  before \<open>s\<close> rejects the call (whatever the error) and \<open>s\<close> answers, the result is the
  normalised content of that answer; the requests made are exactly one to each server up
  to and including \<open>s\<close>, in order, and none to a later server.
\<close>

theorem first_success_wins:
  assumes "\<forall>p \<in> set pre. isl (call_tool (snd p) toolName input)"
    and "call_tool s toolName input = Inr content"
  shows "executeTool js (pre @ (n, s) # rest) toolName input w =
           (format_content js content,
            w\<lparr>tool_calls := tool_calls w
                 @ map (\<lambda>p. (fst p, toolName, input)) (pre @ [(n, s)])\<rparr>)"
  using assms by (rule executeTool_first_success)

theorem first_success_wins_witness:
  "isl (call_tool broken_server ''random'' (JObj []))
   \<and> call_tool (math_server js0 no_other_tools) ''random'' (JObj []) =
       Inr (CItems [text_item ''Random number between 0 and 100: 10''])
   \<and> executeTool js0
        [(''broken'', broken_server), (''math-server'', math_server js0 no_other_tools),
         (''echo'', echo_server)] ''random'' (JObj []) w0 =
       (''Random number between 0 and 100: 10'',
        \<lparr> model_calls = [],
          tool_calls = [(''broken'', ''random'', JObj []), (''math-server'', ''random'', JObj [])],
          opened = [], closed = [] \<rparr>)"
proof -
  have h: "\<forall>p \<in> set [(''broken'', broken_server)]. isl (call_tool (snd p) ''random'' (JObj []))"
    by (simp add: broken_server_def reject_all_def)
  have c: "call_tool (math_server js0 no_other_tools) ''random'' (JObj []) =
       Inr (CItems [text_item ''Random number between 0 and 100: 10''])"
    by (simp add: math_server_def random_no_args)
  show ?thesis
    using first_success_wins [OF h c, of js0 "''math-server''" "[(''echo'', echo_server)]" w0] h c
    by (simp add: item_text_def text_item_def w0_def)
qed

text \<open>
  C4, as the code has it. The request validates every answer against the result schema, so
  the content it delivers is a list of items. When the first server that answers delivers
  the items \<open>cs\<close>, the result is the items joined by newlines, an item being: its \<open>text\<close>
  when that is a non-empty string; its \<open>text\<close> converted to a string when that is another
  truthy value; and its \<open>JSON.stringify\<close> form when it has no \<open>text\<close>, an empty one or
  another falsy one. The empty list gives the empty string.
\<close>

theorem content_normalization:
  assumes "\<forall>p \<in> set pre. isl (call_tool (snd p) toolName input)"
    and "call_tool s toolName input = Inr (CItems cs)"
  shows "fst (executeTool js (pre @ (n, s) # rest) toolName input w) =
           join [CHR 0x0A]
             (map (\<lambda>c. case map_of c ''text'' of
                          None \<Rightarrow> JSON_stringify js (JObj c)
                        | Some (JStr t) \<Rightarrow> if t = [] then JSON_stringify js (JObj c) else t
                        | Some v \<Rightarrow> if truthy v then ToString js v
                                    else JSON_stringify js (JObj c)) cs)"
proof -
  have item: "item_text js =
      (\<lambda>c. case map_of c ''text'' of
              None \<Rightarrow> JSON_stringify js (JObj c)
            | Some (JStr t) \<Rightarrow> if t = [] then JSON_stringify js (JObj c) else t
            | Some v \<Rightarrow> if truthy v then ToString js v else JSON_stringify js (JObj c))"
    by (rule ext) (simp add: item_text_def split: option.splits json.splits)
  have "fst (executeTool js (pre @ (n, s) # rest) toolName input w) = format_content js (CItems cs)"
    using executeTool_first_success [OF assms, of js n rest w] by simp
  then show ?thesis by (simp add: item)
qed

theorem content_normalization_witness:
  "isl (call_tool broken_server ''snapshot'' (JObj []))
   \<and> call_tool mixed_server ''snapshot'' (JObj []) =
       Inr (CItems [text_item ''first line'', text_item [], image_item])
   \<and> fst (executeTool js0 [(''broken'', broken_server), (''mixed'', mixed_server)]
            ''snapshot'' (JObj []) w0) =
       ''first line'' @ [CHR 0x0A]
       @ ''{'' @ [CHR 0x22] @ ''type'' @ [CHR 0x22] @ '':'' @ [CHR 0x22] @ ''text'' @ [CHR 0x22]
         @ '','' @ [CHR 0x22] @ ''text'' @ [CHR 0x22] @ '':'' @ [CHR 0x22, CHR 0x22] @ ''}''
       @ [CHR 0x0A]
       @ ''{'' @ [CHR 0x22] @ ''type'' @ [CHR 0x22] @ '':'' @ [CHR 0x22] @ ''image'' @ [CHR 0x22]
         @ '','' @ [CHR 0x22] @ ''data'' @ [CHR 0x22] @ '':'' @ [CHR 0x22] @ ''AAAA'' @ [CHR 0x22]
         @ '','' @ [CHR 0x22] @ ''mimeType'' @ [CHR 0x22] @ '':'' @ [CHR 0x22] @ ''image/png''
         @ [CHR 0x22] @ ''}''"
proof -
  have h: "\<forall>p \<in> set [(''broken'', broken_server)]. isl (call_tool (snd p) ''snapshot'' (JObj []))"
    by (simp add: broken_server_def reject_all_def)
  have c: "call_tool mixed_server ''snapshot'' (JObj []) =
       Inr (CItems [text_item ''first line'', text_item [], image_item])"
    by (simp add: mixed_server_def mixed_call_def)
  show ?thesis
    using content_normalization [OF h c, of js0 "''mixed''" "[]" w0] h c
    by (simp add: text_item_def image_item_def JSON_stringify_def quote_def quote_char_def)
qed

lemma stringify_blank:
  "JSON_stringify js (JObj (text_item [])) =
     ''{'' @ [CHR 0x22] @ ''type'' @ [CHR 0x22] @ '':'' @ [CHR 0x22] @ ''text'' @ [CHR 0x22]
       @ '','' @ [CHR 0x22] @ ''text'' @ [CHR 0x22] @ '':'' @ [CHR 0x22, CHR 0x22] @ ''}''"
  by (simp add: JSON_stringify_def text_item_def quote_def quote_char_def)

text \<open>A \<open>text\<close> that is a number is printed: \<open>{type: "text", text: 5}\<close> gives \<open>5\<close>.\<close>

lemma item_text_number:
  "item_text js0 [(''type'', JStr ''text''), (''text'', JNum (Fin 5))] = ''5''"
  by (simp add: item_text_def num_to_string_def is_safe_integer_def is_integer_def
      int_to_string_def)


text \<open>
  C4 as stated fails. A server answers one text item whose \<open>text\<close> is the empty string: the
  item has a \<open>text\<close> field, but the result is not that text (the empty string), it is the
  serialised item \<open>{"type":"text","text":""}\<close>.
\<close>

theorem empty_text_counterexample:
  "call_tool blank_server ''echo'' (JObj []) = Inr (CItems [text_item []])
   \<and> map_of (text_item []) ''text'' = Some (JStr [])
   \<and> fst (executeTool js0 [(''blank'', blank_server)] ''echo'' (JObj []) w0)
       = ''{'' @ [CHR 0x22] @ ''type'' @ [CHR 0x22] @ '':'' @ [CHR 0x22] @ ''text'' @ [CHR 0x22]
         @ '','' @ [CHR 0x22] @ ''text'' @ [CHR 0x22] @ '':'' @ [CHR 0x22, CHR 0x22] @ ''}''
   \<and> fst (executeTool js0 [(''blank'', blank_server)] ''echo'' (JObj []) w0) \<noteq> []"
proof -
  have t: "map_of (text_item []) ''text'' = Some (JStr [])"
    by (simp add: text_item_def)
  show ?thesis
    by (simp add: blank_server_def blank_call_def stringify_blank item_text_def t)
qed

lemma sublist_not_found_name: "sublist toolName (not_found toolName)"
  unfolding not_found_def sublist_def
  by (rule exI [of _ "''Tool '' @ [CHR 0x27]"],
      rule exI [of _ "[CHR 0x27] @ '' not found in any server.''"]) simp

lemma sublist_not_found_text: "sublist ''not found'' (not_found toolName)"
  unfolding not_found_def sublist_def
  by (rule exI [of _ "''Tool '' @ [CHR 0x27] @ toolName @ [CHR 0x27] @ '' ''"],
      rule exI [of _ "'' in any server.''"]) simp

text \<open>
  C3, as the code has it. The math server rejects \<open>factorial\<close> of 171 with the error
  \<open>Number too large (would exceed precision)\<close>; the client discards that error and, with
  the math server as the only server, returns the string
  \<open>Tool 'factorial' not found in any server.\<close>: a string, neither an exception nor a
  number, after one request to the server.
\<close>

theorem factorial_171_outcome:
  "CallTool_handler js other ''factorial'' (JObj [(''n'', JNum (Fin 171))]) =
      Inl (McpError InvalidParams ''Number too large (would exceed precision)'')
   \<and> executeTool js [(sname, math_server js other)] ''factorial''
        (JObj [(''n'', JNum (Fin 171))]) w =
      (''Tool '' @ [CHR 0x27] @ ''factorial'' @ [CHR 0x27] @ '' not found in any server.'',
       w\<lparr>tool_calls := tool_calls w
            @ [(sname, ''factorial'', JObj [(''n'', JNum (Fin 171))])]\<rparr>)"
  by (simp add: math_server_def CallTool_handler_def factorial_case_def validateNumber_def
       num_lt_def Number_isInteger_def is_integer_def handleError_def not_found_def)

text \<open>
  C3 as stated fails: the string the query shows for \<open>factorial\<close> of 171 does not contain
  \<open>too large\<close>.
\<close>

theorem factorial_171_counterexample:
  "\<not> sublist ''too large''
     (fst (executeTool js0 [(''math-server'', math_server js0 no_other_tools)]
             ''factorial'' (JObj [(''n'', JNum (Fin 171))]) w0))"
  by (simp add: math_server_def CallTool_handler_def factorial_case_def validateNumber_def
       num_lt_def Number_isInteger_def is_integer_def handleError_def not_found_def
       sublist_code)

section \<open>The conversation loop\<close>

lemma scan_content_text_only:
  "scan_content js srvs response (map TextBlock ts) st w =
     (False, st\<lparr>steps := steps st @ map (Step text_step) ts\<rparr>, w)"
  by (induction ts arbitrary: st) simp_all

lemma scan_content_prefix:
  assumes "\<forall>b \<in> set pre. \<not> is_tool_use b"
  shows "scan_content js srvs response (pre @ bs) st w =
           scan_content js srvs response bs (st\<lparr>steps := steps st @ text_steps pre\<rparr>) w"
  using assms
proof (induction pre arbitrary: st)
  case Nil
  then show ?case by simp
next
  case (Cons b pre)
  then show ?case by (cases b) (simp_all add: is_tool_use_def)
qed

lemma scan_content_first_tool_use:
  assumes "\<forall>b \<in> set pre. \<not> is_tool_use b"
  shows "scan_content js srvs response (pre @ ToolUseBlock tid toolName toolInput # rest) st w =
           (True,
            st\<lparr>steps := steps st @ text_steps pre
                   @ [Step tool_use_step
                        (''Tool: '' @ toolName @ [CHR 0x0A] @ ''Input:'' @ [CHR 0x0A]
                           @ JSON_stringify2 js toolInput),
                      Step tool_result_step (fst (executeTool js srvs toolName toolInput w))],
               messages := messages st
                   @ [AssistantBlocks response,
                      UserToolResult tid (fst (executeTool js srvs toolName toolInput w))]\<rparr>,
            snd (executeTool js srvs toolName toolInput w))"
  by (simp add: scan_content_prefix [OF assms] split: prod.splits)

text \<open>
  The loop raises nothing of its own: an error it ends with is an error the reasoning
  model raised on some message log.
\<close>

lemma conversation_error_aux:
  assumes "conversation sy c response st w = Some y"
  shows "\<forall>e. fst y = Inl e \<longrightarrow> (\<exists>msgs. llm sy (availableTools c) msgs = Inl e)"
proof (rule conversation.raw_induct
    [where P = "\<lambda>sy c response st w y.
                  \<forall>e. fst y = Inl e \<longrightarrow> (\<exists>msgs. llm sy (availableTools c) msgs = Inl e)",
     OF _ assms])
  fix conv sy c response st w y
  assume IH: "\<And>sy c response st w y. conv sy c response st w = Some y \<Longrightarrow>
                \<forall>e. fst y = Inl e \<longrightarrow> (\<exists>msgs. llm sy (availableTools c) msgs = Inl e)"
    and body: "(case scan_content (runtime sy) (servers c) response response st w of
      (usedTool, st', w') \<Rightarrow>
        if \<not> usedTool then Some (Inr (steps st'), w')
        else case llm sy (availableTools c) (messages st') of
             Inl e \<Rightarrow> Some (Inl e, w'\<lparr>model_calls := model_calls w' @ [messages st']\<rparr>)
             | Inr response' \<Rightarrow>
                 conv sy c response' st'
                  (w'\<lparr>model_calls := model_calls w' @ [messages st']\<rparr>)) = Some y"
  show "\<forall>e. fst y = Inl e \<longrightarrow> (\<exists>msgs. llm sy (availableTools c) msgs = Inl e)"
    using body IH
    by (auto split: prod.splits if_splits sum.splits)
qed

lemma conversation_error_from_model:
  assumes "conversation sy c response st w = Some (Inl e, w')"
  shows "\<exists>msgs. llm sy (availableTools c) msgs = Inl e"
  using conversation_error_aux [OF assms] by simp

text \<open>
  C9. With an empty tool list \<open>processQuery\<close> throws \<open>No tools available. Please call
  connectToServers() first.\<close>; the outside is as before the call, so no request went to the
  reasoning model, and the result carries no steps.
\<close>

theorem processQuery_no_tools:
  assumes "availableTools c = []"
  shows "processQuery sy c query w =
           Some (Inl (Error ''No tools available. Please call connectToServers() first.''), w)"
  using assms by (simp add: processQuery_def)

theorem processQuery_no_tools_witness:
  "availableTools fresh_client = []
   \<and> processQuery sys0 fresh_client ''What is 2 + 2?'' w0 =
       Some (Inl (Error ''No tools available. Please call connectToServers() first.''), w0)"
proof -
  have h: "availableTools fresh_client = []" by (simp add: fresh_client_def)
  show ?thesis using processQuery_no_tools [OF h, of sys0 "''What is 2 + 2?''" w0] h by simp
qed

text \<open>
  C7. When the tool list is not empty and the model answers the query with text blocks
  only, \<open>processQuery\<close> returns one text step per block, in the order of the blocks, and
  exactly one request, carrying the query alone, went to the reasoning model.
\<close>

theorem text_only_response:
  assumes "availableTools c \<noteq> []"
    and "llm sy (availableTools c) [UserText query] = Inr (map TextBlock ts)"
  shows "processQuery sy c query w =
           Some (Inr (map (Step text_step) ts),
                 w\<lparr>model_calls := model_calls w @ [[UserText query]]\<rparr>)"
  using assms
  by (simp add: processQuery_def conversation.simps scan_content_text_only)

theorem text_only_response_witness:
  "availableTools client0 \<noteq> []
   \<and> llm (sys0\<lparr>llm := llm_text\<rparr>) (availableTools client0) [UserText ''What is 2 + 2?''] =
       Inr (map TextBlock [''2 + 2 = 4'', ''Anything else?''])
   \<and> processQuery (sys0\<lparr>llm := llm_text\<rparr>) client0 ''What is 2 + 2?'' w0 =
       Some (Inr [Step text_step ''2 + 2 = 4'', Step text_step ''Anything else?''],
             \<lparr> model_calls = [[UserText ''What is 2 + 2?'']], tool_calls = [],
               opened = [], closed = [] \<rparr>)"
proof -
  have h: "availableTools client0 \<noteq> []"
    by (simp add: client0_def ListTools_handler_def)
  have m: "llm (sys0\<lparr>llm := llm_text\<rparr>) (availableTools client0) [UserText ''What is 2 + 2?''] =
             Inr (map TextBlock [''2 + 2 = 4'', ''Anything else?''])"
    by (simp add: llm_text_def)
  show ?thesis
    using text_only_response [OF h m, of w0] h m by (simp add: w0_def)
qed

text \<open>
  What a run of the loop leaves behind: the steps it returns start with the steps it began
  with, and the requests of one \<open>executeTool\<close> all carry its tool name and arguments.
\<close>

lemma scan_content_steps_extend:
  "\<exists>l. steps (fst (snd (scan_content js srvs response bs st w))) = steps st @ l"
proof (induction bs arbitrary: st)
  case Nil
  then show ?case by simp
next
  case (Cons b bs)
  show ?case
  proof (cases b)
    case (TextBlock t)
    from Cons [of "st\<lparr>steps := steps st @ [Step text_step t]\<rparr>"]
    show ?thesis using TextBlock by auto
  next
    case (ToolUseBlock tid n a)
    then show ?thesis by (simp split: prod.splits)
  next
    case (OtherBlock ty)
    then show ?thesis using Cons by simp
  qed
qed

lemma conversation_steps_aux:
  assumes "conversation sy c response st w = Some y"
  shows "\<forall>result. fst y = Inr result \<longrightarrow> (\<exists>later. result = steps st @ later)"
proof (rule conversation.raw_induct
    [where P = "\<lambda>sy c response st w y.
                  \<forall>result. fst y = Inr result \<longrightarrow> (\<exists>later. result = steps st @ later)",
     OF _ assms])
  fix conv sy c response st w y
  assume IH: "\<And>sy c response st w y. conv sy c response st w = Some y \<Longrightarrow>
                \<forall>result. fst y = Inr result \<longrightarrow> (\<exists>later. result = steps st @ later)"
    and body: "(case scan_content (runtime sy) (servers c) response response st w of
      (usedTool, st', w') \<Rightarrow>
        if \<not> usedTool then Some (Inr (steps st'), w')
        else case llm sy (availableTools c) (messages st') of
             Inl e \<Rightarrow> Some (Inl e, w'\<lparr>model_calls := model_calls w' @ [messages st']\<rparr>)
             | Inr response' \<Rightarrow>
                 conv sy c response' st'
                  (w'\<lparr>model_calls := model_calls w' @ [messages st']\<rparr>)) = Some y"
  obtain u st' w' where
    s: "scan_content (runtime sy) (servers c) response response st w = (u, st', w')"
    by (cases "scan_content (runtime sy) (servers c) response response st w")
  obtain l where l: "steps st' = steps st @ l"
    using scan_content_steps_extend [of "runtime sy" "servers c" response response st w] s by auto
  show "\<forall>result. fst y = Inr result \<longrightarrow> (\<exists>later. result = steps st @ later)"
  proof (cases u)
    case False
    then show ?thesis using body s by (auto intro!: exI [of _ l] simp: l)
  next
    case True
    show ?thesis
    proof (cases "llm sy (availableTools c) (messages st')")
      case (Inl e)
      then show ?thesis using body s True by auto
    next
      case (Inr r)
      then have "conv sy c r st' (w'\<lparr>model_calls := model_calls w' @ [messages st']\<rparr>) = Some y"
        using body s True by simp
      from IH [OF this] show ?thesis using l by auto
    qed
  qed
qed

lemma conversation_steps_prefix:
  assumes "conversation sy c response st w = Some (Inr result, wend)"
  shows "\<exists>later. result = steps st @ later"
  using conversation_steps_aux [OF assms] by simp

lemma executeTool_calls:
  "\<exists>k. tool_calls (snd (executeTool js srvs toolName input w)) =
          tool_calls w @ map (\<lambda>p. (fst p, toolName, input)) (take k srvs)"
proof (induction srvs arbitrary: w)
  case Nil
  show ?case by simp
next
  case (Cons p srvs)
  obtain n s where p: "p = (n, s)" by (cases p)
  show ?case
  proof (cases "call_tool s toolName input")
    case (Inl e)
    from Cons [of "w\<lparr>tool_calls := tool_calls w @ [(n, toolName, input)]\<rparr>"]
    obtain k where "tool_calls (snd (executeTool js srvs toolName input
                      (w\<lparr>tool_calls := tool_calls w @ [(n, toolName, input)]\<rparr>))) =
                    (tool_calls w @ [(n, toolName, input)])
                      @ map (\<lambda>p. (fst p, toolName, input)) (take k srvs)"
      by auto
    then have "tool_calls (snd (executeTool js (p # srvs) toolName input w)) =
          tool_calls w @ map (\<lambda>p. (fst p, toolName, input)) (take (Suc k) (p # srvs))"
      using Inl by (simp add: p)
    then show ?thesis by blast
  next
    case (Inr content)
    then have "tool_calls (snd (executeTool js (p # srvs) toolName input w)) =
          tool_calls w @ map (\<lambda>p. (fst p, toolName, input)) (take (Suc 0) (p # srvs))"
      by (simp add: p)
    then show ?thesis by blast
  qed
qed

lemma conversation_tool_turn:
  assumes "\<forall>b \<in> set pre. \<not> is_tool_use b"
    and "response = pre @ ToolUseBlock tid toolName toolInput # rest"
    and "executeTool (runtime sy) (servers c) toolName toolInput w = (toolResult, w1)"
    and "turn = text_steps pre
           @ [Step tool_use_step
                (''Tool: '' @ toolName @ [CHR 0x0A] @ ''Input:'' @ [CHR 0x0A]
                   @ JSON_stringify2 (runtime sy) toolInput),
              Step tool_result_step toolResult]"
    and "st' = st\<lparr>steps := steps st @ turn,
                    messages := messages st
                      @ [AssistantBlocks response, UserToolResult tid toolResult]\<rparr>"
  shows "conversation sy c response st w =
           (case llm sy (availableTools c) (messages st') of
              Inl e \<Rightarrow> Some (Inl e, w1\<lparr>model_calls := model_calls w1 @ [messages st']\<rparr>)
            | Inr response' \<Rightarrow>
                conversation sy c response' st'
                  (w1\<lparr>model_calls := model_calls w1 @ [messages st']\<rparr>))"
proof -
  have "scan_content (runtime sy) (servers c) response response st w = (True, st', w1)"
    using scan_content_first_tool_use [OF assms(1), of "runtime sy" "servers c" response tid
        toolName toolInput rest st w]
    by (simp add: assms(2) [symmetric] assms(3,4,5))
  then show ?thesis
    by (subst conversation.simps) simp
qed

text \<open>
  C2. A turn of the \<open>while\<close> loop of \<open>processQuery\<close> whose response has its first tool-use
  block after the blocks \<open>pre\<close>. That turn adds to the steps the text steps of \<open>pre\<close>, one
  \<open>tool_use\<close> step and one \<open>tool_result\<close> step, executes the tool of that block and no
  other (every request of the turn carries its name and arguments), and then the loop
  asks the model again: the blocks \<open>rest\<close> after the first tool-use block, tool-use blocks
  included, are never scanned; they only appear in the copy of the response appended to
  the message log. Whatever steps the loop finally returns start with the steps before the
  turn followed by the steps of the turn. The first turn of \<open>processQuery\<close> is such a run
  of the loop.
\<close>

theorem first_tool_use_only:
  assumes "\<forall>b \<in> set pre. \<not> is_tool_use b"
    and "response = pre @ ToolUseBlock tid toolName toolInput # rest"
    and "executeTool (runtime sy) (servers c) toolName toolInput w = (toolResult, w1)"
    and "turn = text_steps pre
           @ [Step tool_use_step
                (''Tool: '' @ toolName @ [CHR 0x0A] @ ''Input:'' @ [CHR 0x0A]
                   @ JSON_stringify2 (runtime sy) toolInput),
              Step tool_result_step toolResult]"
    and "st' = st\<lparr>steps := steps st @ turn,
                    messages := messages st
                      @ [AssistantBlocks response, UserToolResult tid toolResult]\<rparr>"
  shows "conversation sy c response st w =
           (case llm sy (availableTools c) (messages st') of
              Inl e \<Rightarrow> Some (Inl e, w1\<lparr>model_calls := model_calls w1 @ [messages st']\<rparr>)
            | Inr response' \<Rightarrow>
                conversation sy c response' st'
                  (w1\<lparr>model_calls := model_calls w1 @ [messages st']\<rparr>))
       \<and> (\<exists>k. tool_calls w1 =
                 tool_calls w @ map (\<lambda>p. (fst p, toolName, toolInput)) (take k (servers c)))
       \<and> (\<forall>result wend. conversation sy c response st w = Some (Inr result, wend)
             \<longrightarrow> (\<exists>later. result = steps st @ turn @ later))
       \<and> (availableTools c \<noteq> []
            \<and> llm sy (availableTools c) [UserText query] = Inr response
            \<and> st = \<lparr> steps = [], messages = [UserText query] \<rparr>
            \<and> w = wq\<lparr>model_calls := model_calls wq @ [[UserText query]]\<rparr>
          \<longrightarrow> processQuery sy c query wq = conversation sy c response st w)"
proof -
  note turn_eq = conversation_tool_turn [OF assms]
  have calls: "\<exists>k. tool_calls w1 =
                 tool_calls w @ map (\<lambda>p. (fst p, toolName, toolInput)) (take k (servers c))"
    using executeTool_calls [of "runtime sy" "servers c" toolName toolInput w] assms(3) by simp
  have res: "\<exists>later. result = steps st @ turn @ later"
    if r: "conversation sy c response st w = Some (Inr result, wend)" for result wend
  proof (cases "llm sy (availableTools c) (messages st')")
    case (Inl e)
    then show ?thesis using r turn_eq by simp
  next
    case (Inr response')
    then have "conversation sy c response' st'
                 (w1\<lparr>model_calls := model_calls w1 @ [messages st']\<rparr>) = Some (Inr result, wend)"
      using r turn_eq by simp
    from conversation_steps_prefix [OF this] show ?thesis
      by (auto simp: assms(5))
  qed
  have pq: "processQuery sy c query wq = conversation sy c response st w"
    if "availableTools c \<noteq> []" "llm sy (availableTools c) [UserText query] = Inr response"
       "st = \<lparr> steps = [], messages = [UserText query] \<rparr>"
       "w = wq\<lparr>model_calls := model_calls wq @ [[UserText query]]\<rparr>"
    using that by (simp add: processQuery_def)
  from turn_eq calls res pq show ?thesis by blast
qed

theorem first_tool_use_only_witness:
  "\<not> is_tool_use (TextBlock ''Let me compute that.'')
   \<and> llm (sys0\<lparr>llm := llm_tool\<rparr>) (availableTools client0) [UserText ''Pick a number''] = Inr response0
   \<and> processQuery (sys0\<lparr>llm := llm_tool\<rparr>) client0 ''Pick a number'' w0 =
       Some (Inr [Step text_step ''Let me compute that.'',
                  Step tool_use_step
                    (''Tool: random'' @ [CHR 0x0A] @ ''Input:'' @ [CHR 0x0A] @ ''{}''),
                  Step tool_result_step ''Random number between 0 and 100: 10'',
                  Step text_step ''The number is 10.''],
             \<lparr> model_calls =
                 [[UserText ''Pick a number''],
                  [UserText ''Pick a number'', AssistantBlocks response0,
                   UserToolResult ''toolu_01'' ''Random number between 0 and 100: 10'']],
               tool_calls = [(''math-server'', ''random'', JObj [])],
               opened = [], closed = [] \<rparr>)"
proof -
  let ?sy = "sys0\<lparr>llm := llm_tool\<rparr>"
  let ?w = "w0\<lparr>model_calls := model_calls w0 @ [[UserText ''Pick a number'']]\<rparr>"
  let ?st = "\<lparr> steps = [], messages = [UserText ''Pick a number''] \<rparr>"
  let ?rest = "[TextBlock ''and then'',
                ToolUseBlock ''toolu_02'' ''factorial'' (JObj [(''n'', JNum (Fin 5))])]"
  have h: "\<forall>b \<in> set [TextBlock ''Let me compute that.'']. \<not> is_tool_use b"
    by (simp add: is_tool_use_def)
  have r: "response0 =
             [TextBlock ''Let me compute that.''] @ ToolUseBlock ''toolu_01'' ''random'' (JObj [])
             # ?rest"
    by (simp add: response0_def)
  have e: "executeTool (runtime ?sy) (servers client0) ''random'' (JObj []) ?w =
             (''Random number between 0 and 100: 10'',
              \<lparr> model_calls = [[UserText ''Pick a number'']],
                tool_calls = [(''math-server'', ''random'', JObj [])],
                opened = [], closed = [] \<rparr>)"
    by (simp add: sys0_def client0_def math_server_def random_no_args item_text_def text_item_def
        w0_def)
  have t: "availableTools client0 \<noteq> []"
    by (simp add: client0_def ListTools_handler_def)
  have m: "llm ?sy (availableTools client0) [UserText ''Pick a number''] = Inr response0"
    by (simp add: llm_tool_def)
  have s: "JSON_stringify2 js0 (JObj []) = ''{}''"
    by (simp add: JSON_stringify2_def)
  note inst = first_tool_use_only [where st = ?st and query = "''Pick a number''" and wq = w0,
      OF h r e refl refl]
  from inst t m have pq: "processQuery ?sy client0 ''Pick a number'' w0 =
      conversation ?sy client0 response0 ?st ?w"
    by blast
  have rt: "runtime sys0 = js0" by (simp add: sys0_def)
  from inst have turn: "conversation ?sy client0 response0 ?st ?w =
      conversation ?sy client0 (map TextBlock [''The number is 10.''])
        \<lparr> steps = [Step text_step ''Let me compute that.'',
                  Step tool_use_step
                    (''Tool: random'' @ [CHR 0x0A] @ ''Input:'' @ [CHR 0x0A] @ ''{}''),
                  Step tool_result_step ''Random number between 0 and 100: 10''],
          messages = [UserText ''Pick a number'', AssistantBlocks response0,
                   UserToolResult ''toolu_01'' ''Random number between 0 and 100: 10''] \<rparr>
        \<lparr> model_calls =
                 [[UserText ''Pick a number''],
                  [UserText ''Pick a number'', AssistantBlocks response0,
                   UserToolResult ''toolu_01'' ''Random number between 0 and 100: 10'']],
          tool_calls = [(''math-server'', ''random'', JObj [])],
          opened = [], closed = [] \<rparr>"
    by (simp add: s rt llm_tool_def)
  show ?thesis
    using h m pq
    by (simp only: turn) (simp add: conversation.simps scan_content_text_only)
qed


text \<open>
  Two turns end to end: the model asks for one tool, then answers in text. The steps are
  those of the first turn followed by those of the second, and two requests went to the
  model, the second carrying the response and the tool result.
\<close>

lemma processQuery_tool_then_text:
  assumes "availableTools c \<noteq> []"
    and "\<forall>b \<in> set pre. \<not> is_tool_use b"
    and "llm sy (availableTools c) [UserText query] =
           Inr (pre @ ToolUseBlock tid toolName toolInput # rest)"
    and "executeTool (runtime sy) (servers c) toolName toolInput
           (w\<lparr>model_calls := model_calls w @ [[UserText query]]\<rparr>) = (r, w1)"
    and "llm sy (availableTools c)
           [UserText query, AssistantBlocks (pre @ ToolUseBlock tid toolName toolInput # rest),
            UserToolResult tid r] = Inr (map TextBlock ts)"
  shows "processQuery sy c query w =
           Some (Inr (text_steps pre
                      @ [Step tool_use_step
                           (''Tool: '' @ toolName @ [CHR 0x0A] @ ''Input:'' @ [CHR 0x0A]
                              @ JSON_stringify2 (runtime sy) toolInput),
                         Step tool_result_step r]
                      @ map (Step text_step) ts),
                 w1\<lparr>model_calls := model_calls w1
                      @ [[UserText query,
                          AssistantBlocks (pre @ ToolUseBlock tid toolName toolInput # rest),
                          UserToolResult tid r]]\<rparr>)"
  using assms(1,3,4,5)
  by (simp add: processQuery_def conversation.simps scan_content_first_tool_use [OF assms(2)]
      scan_content_text_only)

text \<open>
  C5. When every connected server rejects the call, \<open>executeTool\<close> returns the string
  \<open>Tool '<name>' not found in any server.\<close>, which contains the tool name and the words
  \<open>not found\<close>. In the loop the turn completes: the scan reports a used tool, its last step
  is the \<open>tool_result\<close> step carrying that string, and whatever error the loop may end
  with afterwards is one the reasoning model raised.
\<close>

theorem tool_not_found_soft:
  assumes "\<forall>p \<in> set (servers c). isl (call_tool (snd p) toolName input)"
    and "\<forall>b \<in> set pre. \<not> is_tool_use b"
    and "response = pre @ ToolUseBlock tid toolName input # rest"
  shows "fst (executeTool (runtime sy) (servers c) toolName input w) = not_found toolName
       \<and> not_found toolName
           = ''Tool '' @ [CHR 0x27] @ toolName @ [CHR 0x27] @ '' not found in any server.''
       \<and> sublist toolName (not_found toolName)
       \<and> sublist ''not found'' (not_found toolName)
       \<and> fst (scan_content (runtime sy) (servers c) response response st w)
       \<and> last (steps (fst (snd (scan_content (runtime sy) (servers c) response response st w))))
            = Step tool_result_step (not_found toolName)
       \<and> (\<forall>e w'. conversation sy c response st w = Some (Inl e, w')
             \<longrightarrow> (\<exists>msgs. llm sy (availableTools c) msgs = Inl e))"
proof -
  have exec: "fst (executeTool (runtime sy) (servers c) toolName input w) = not_found toolName"
    using assms(1) by (simp add: executeTool_all_fail)
  have str: "not_found toolName
          = ''Tool '' @ [CHR 0x27] @ toolName @ [CHR 0x27] @ '' not found in any server.''"
    by (simp add: not_found_def)
  have scan: "scan_content (runtime sy) (servers c) response response st w =
           (True,
            st\<lparr>steps := steps st @ text_steps pre
                   @ [Step tool_use_step
                        (''Tool: '' @ toolName @ [CHR 0x0A] @ ''Input:'' @ [CHR 0x0A]
                           @ JSON_stringify2 (runtime sy) input),
                      Step tool_result_step (not_found toolName)],
               messages := messages st
                   @ [AssistantBlocks response, UserToolResult tid (not_found toolName)]\<rparr>,
            snd (executeTool (runtime sy) (servers c) toolName input w))"
    using scan_content_first_tool_use [OF assms(2), of "runtime sy" "servers c" response tid
        toolName input rest st w]
    by (simp add: assms(3) [symmetric] exec)
  have used: "fst (scan_content (runtime sy) (servers c) response response st w)"
    and last: "last (steps (fst (snd (scan_content (runtime sy) (servers c) response response st w))))
            = Step tool_result_step (not_found toolName)"
    by (simp_all add: scan)
  have err: "\<forall>e w'. conversation sy c response st w = Some (Inl e, w')
             \<longrightarrow> (\<exists>msgs. llm sy (availableTools c) msgs = Inl e)"
    by (blast dest: conversation_error_from_model)
  from exec str sublist_not_found_name sublist_not_found_text used last err
  show ?thesis by blast
qed

theorem tool_not_found_soft_witness:
  "isl (call_tool (math_server js0 no_other_tools) ''weather'' (JObj []))
   \<and> servers client0 = [(''math-server'', math_server js0 no_other_tools)]
   \<and> fst (executeTool (runtime sys0) (servers client0) ''weather'' (JObj []) w0)
       = ''Tool '' @ [CHR 0x27] @ ''weather'' @ [CHR 0x27] @ '' not found in any server.''
   \<and> last (steps (fst (snd (scan_content (runtime sys0) (servers client0)
              [ToolUseBlock ''toolu_01'' ''weather'' (JObj [])]
              [ToolUseBlock ''toolu_01'' ''weather'' (JObj [])] st0 w0))))
       = Step tool_result_step
           (''Tool '' @ [CHR 0x27] @ ''weather'' @ [CHR 0x27] @ '' not found in any server.'')"
proof -
  have i: "isl (call_tool (math_server js0 no_other_tools) ''weather'' (JObj []))"
    by (simp add: math_server_def CallTool_handler_def)
  have s: "servers client0 = [(''math-server'', math_server js0 no_other_tools)]"
    by (simp add: client0_def)
  have h: "\<forall>p \<in> set (servers client0). isl (call_tool (snd p) ''weather'' (JObj []))"
    using i by (simp add: s)
  have p: "\<forall>b \<in> set []. \<not> is_tool_use b" by simp
  have r: "[ToolUseBlock ''toolu_01'' ''weather'' (JObj [])] =
             [] @ ToolUseBlock ''toolu_01'' ''weather'' (JObj []) # []" by simp
  show ?thesis
    using tool_not_found_soft [OF h p r, of sys0 w0 st0] i s
    by (simp add: not_found_def)
qed

section \<open>Discovery: the arguments of a server\<close>

lemma path_resolve_relative:
  assumes "path_isAbsolute d" and "\<not> path_isAbsolute a"
  shows "path_resolve d [d, a] =
           ''/'' @ normalizeString (d @ ''/'' @ (if a = [] then [] else a @ ''/'')) False"
  using assms by (cases d) (auto simp: path_resolve_def path_isAbsolute_def)

lemma path_resolve_absolute:
  assumes "path_isAbsolute d" and "\<not> path_isAbsolute a"
  shows "path_isAbsolute (path_resolve d [d, a])"
  by (simp add: path_resolve_relative [OF assms]) (simp add: path_isAbsolute_def)

text \<open>
  C8, as the code has it. With an absolute working directory, the resolved arguments are
  as many as the arguments; an argument that is an absolute path is unchanged, and every
  other argument, whether it names a file or not, is replaced by its resolution against
  the working directory, which is an absolute path and so differs from the argument.
\<close>

theorem resolvedArgs_every_relative:
  assumes "path_isAbsolute d" and "i < length as"
  shows "length (resolvedArgs d as) = length as
       \<and> (if path_isAbsolute (as ! i) then resolvedArgs d as ! i = as ! i
          else resolvedArgs d as ! i = path_resolve d [d, as ! i]
             \<and> path_isAbsolute (resolvedArgs d as ! i)
             \<and> resolvedArgs d as ! i \<noteq> as ! i)"
proof (cases "path_isAbsolute (as ! i)")
  case True
  then show ?thesis using assms(2) by (simp add: resolvedArgs_def)
next
  case False
  have "path_isAbsolute (path_resolve d [d, as ! i])"
    using assms(1) False by (rule path_resolve_absolute)
  moreover from this False have "path_resolve d [d, as ! i] \<noteq> as ! i" by auto
  ultimately show ?thesis using assms(2) False by (simp add: resolvedArgs_def)
qed

theorem resolvedArgs_every_relative_witness:
  "path_isAbsolute ''/app'' \<and> (1::nat) < length [''/usr/bin/tool'', ''server.js'']
   \<and> resolvedArgs ''/app'' [''/usr/bin/tool'', ''server.js''] ! 0 = ''/usr/bin/tool''
   \<and> resolvedArgs ''/app'' [''/usr/bin/tool'', ''server.js''] ! 1 = ''/app/server.js''"
proof -
  have a: "path_isAbsolute ''/app''" by (simp add: path_isAbsolute_def)
  have l: "(1::nat) < length [''/usr/bin/tool'', ''server.js'']" by simp
  have r: "path_resolve ''/app'' [''/app'', ''server.js''] = ''/app/server.js''"
    by (simp add: path_isAbsolute_def path_resolve_def normalizeString_def normalize_step_def)
  have z: "resolvedArgs ''/app'' [''/usr/bin/tool'', ''server.js''] ! 0 = ''/usr/bin/tool''"
    by (simp add: resolvedArgs_def path_isAbsolute_def)
  show ?thesis
    using resolvedArgs_every_relative [OF a l] a z
    by (simp add: r path_isAbsolute_def)
qed

text \<open>
  C8 as stated fails: the argument \<open>-y\<close> is not a path, and it does not pass through
  unchanged; it is resolved like a relative path.
\<close>

theorem resolvedArgs_counterexample:
  "resolvedArgs ''/app'' [''-y'', ''./mcp-tools/math-server.js''] =
     [''/app/-y'', ''/app/mcp-tools/math-server.js'']
   \<and> resolvedArgs ''/app'' [''-y'', ''./mcp-tools/math-server.js''] ! 0 \<noteq> ''-y''"
  by (simp add: resolvedArgs_def path_isAbsolute_def path_resolve_def normalizeString_def
      normalize_step_def)

section \<open>The session: \<open>runQuery\<close>\<close>

lemma executeTool_connections:
  "opened (snd (executeTool js srvs toolName input w)) = opened w
   \<and> closed (snd (executeTool js srvs toolName input w)) = closed w"
  by (induction srvs arbitrary: w) (auto simp: Let_def split: sum.splits)

lemma scan_content_connections:
  "opened (snd (snd (scan_content js srvs response bs st w))) = opened w
   \<and> closed (snd (snd (scan_content js srvs response bs st w))) = closed w"
proof (induction bs arbitrary: st)
  case Nil
  then show ?case by simp
next
  case (Cons b bs)
  show ?case
  proof (cases b)
    case (TextBlock t)
    then show ?thesis using Cons by simp
  next
    case (ToolUseBlock tid n a)
    then show ?thesis
      using executeTool_connections [of js srvs n a w]
      by (simp split: prod.splits) (metis snd_conv)
  next
    case (OtherBlock ty)
    then show ?thesis using Cons by simp
  qed
qed

lemma conversation_connections:
  assumes "conversation sy c response st w = Some y"
  shows "opened (snd y) = opened w \<and> closed (snd y) = closed w"
proof (rule conversation.raw_induct
    [where P = "\<lambda>sy c response st w y. opened (snd y) = opened w \<and> closed (snd y) = closed w",
     OF _ assms])
  fix conv sy c response st w y
  assume IH: "\<And>sy c response st w y. conv sy c response st w = Some y \<Longrightarrow>
                opened (snd y) = opened w \<and> closed (snd y) = closed w"
    and body: "(case scan_content (runtime sy) (servers c) response response st w of
      (usedTool, st', w') \<Rightarrow>
        if \<not> usedTool then Some (Inr (steps st'), w')
        else case llm sy (availableTools c) (messages st') of
             Inl e \<Rightarrow> Some (Inl e, w'\<lparr>model_calls := model_calls w' @ [messages st']\<rparr>)
             | Inr response' \<Rightarrow>
                 conv sy c response' st'
                  (w'\<lparr>model_calls := model_calls w' @ [messages st']\<rparr>)) = Some y"
  obtain u st' w' where
    s: "scan_content (runtime sy) (servers c) response response st w = (u, st', w')"
    by (cases "scan_content (runtime sy) (servers c) response response st w")
  have w': "opened w' = opened w \<and> closed w' = closed w"
    using scan_content_connections [of "runtime sy" "servers c" response response st w] s by simp
  show "opened (snd y) = opened w \<and> closed (snd y) = closed w"
  proof (cases u)
    case False
    then show ?thesis using body s w' by auto
  next
    case True
    show ?thesis
    proof (cases "llm sy (availableTools c) (messages st')")
      case (Inl e)
      then show ?thesis using body s w' True by auto
    next
      case (Inr r)
      then have "conv sy c r st' (w'\<lparr>model_calls := model_calls w' @ [messages st']\<rparr>) = Some y"
        using body s True by simp
      from IH [OF this] show ?thesis using w' by simp
    qed
  qed
qed

lemma processQuery_connections:
  assumes "processQuery sy c query w = Some y"
  shows "opened (snd y) = opened w \<and> closed (snd y) = closed w"
proof (cases "availableTools c = []")
  case True
  then show ?thesis using assms by (auto simp: processQuery_def)
next
  case False
  show ?thesis
  proof (cases "llm sy (availableTools c) [UserText query]")
    case (Inl e)
    then show ?thesis using assms False by (auto simp: processQuery_def)
  next
    case (Inr r)
    then have "conversation sy c r \<lparr> steps = [], messages = [UserText query] \<rparr>
                 (w\<lparr>model_calls := model_calls w @ [[UserText query]]\<rparr>) = Some y"
      using assms False by (simp add: processQuery_def)
    from conversation_connections [OF this] show ?thesis by simp
  qed
qed

lemma map_set_keys: "fst ` set (map_set xs k v) = insert k (fst ` set xs)"
proof (induction xs)
  case Nil
  show ?case by simp
next
  case (Cons x xs)
  obtain k' v' where x: "x = (k', v')" by (cases x)
  show ?case using Cons by (cases "k' = k") (simp_all add: x insert_commute)
qed

lemma connect_loop_connections:
  assumes "connect_loop sy cfg tools c w = (r, c', w')"
  shows "closed w' = closed w
       \<and> set (opened w') \<subseteq> set (opened w) \<union> fst ` set (servers c')
       \<and> fst ` set (servers c) \<subseteq> fst ` set (servers c')"
  using assms
proof (induction sy cfg tools c w rule: connect_loop.induct)
  case (1 sy tools c w)
  then show ?case by auto
next
  case (2 sy serverName serverInfo rest tools c w)
  show ?case
  proof (cases "connect sy (cfg_command serverInfo) (resolvedArgs (cwd sy) (cfg_args serverInfo))
             (cfg_env serverInfo)")
    case (Inl e)
    then show ?thesis using "2.prems" by auto
  next
    case (Inr srv)
    note srv = this
    show ?thesis
    proof (cases "list_tools srv")
      case (Inl e)
      then have "c' = c\<lparr>servers := map_set (servers c) serverName srv\<rparr>"
        and "w' = w\<lparr>opened := opened w @ [serverName]\<rparr>"
        using "2.prems" srv by (simp_all add: Let_def)
      then show ?thesis by (simp add: map_set_keys subset_insertI2)
    next
      case (Inr ts)
      have "connect_loop sy rest (tools @ map to_tool ts)
              (c\<lparr>servers := map_set (servers c) serverName srv\<rparr>)
              (w\<lparr>opened := opened w @ [serverName]\<rparr>) = (r, c', w')"
        using "2.prems" srv Inr by (simp add: Let_def)
      from "2.IH" [OF srv refl refl Inr this]
      have "closed w' = closed w"
        and "set (opened w') \<subseteq> insert serverName (set (opened w)) \<union> fst ` set (servers c')"
        and "insert serverName (fst ` set (servers c)) \<subseteq> fst ` set (servers c')"
        by (simp_all add: map_set_keys)
      then show ?thesis by blast
    qed
  qed
qed

text \<open>
  What \<open>runQuery\<close> does about connections. When it returns steps, every connection it
  opened has been closed. When it raises, whichever step raised, it has called \<open>close\<close> on
  nothing.
\<close>

lemma runQuery_success_closes_all:
  assumes "runQuery sy query w = Some (Inr result, w')"
  shows "set (still_open w') \<subseteq> set (still_open w)"
proof -
  from assms obtain client where cl: "new_MCPClient sy = Inr client"
    by (auto simp: runQuery_def split: sum.splits)
  from assms cl obtain u c1 w1 where co: "connectToServers sy client w = (Inr u, c1, w1)"
    by (auto simp: runQuery_def split: sum.splits prod.splits)
  from assms cl co obtain w2 where pq: "processQuery sy c1 query w1 = Some (Inr result, w2)"
    and w': "w' = snd (cleanup c1 w2)"
    by (auto simp: runQuery_def split: option.splits sum.splits prod.splits)
  from co obtain mcpServers tools c0 where
    lp: "connect_loop sy mcpServers [] client w = (Inr tools, c0, w1)"
    and c1: "c1 = c0\<lparr>availableTools := tools\<rparr>"
    by (auto simp: connectToServers_def split: sum.splits prod.splits)
  from connect_loop_connections [OF lp]
  have a: "closed w1 = closed w"
    "set (opened w1) \<subseteq> set (opened w) \<union> fst ` set (servers c0)"
    by auto
  from processQuery_connections [OF pq]
  have b: "opened w2 = opened w1" "closed w2 = closed w1" by auto
  show ?thesis
    using a b by (auto simp: w' c1 cleanup_def still_open_def)
qed

lemma runQuery_error_closes_nothing:
  assumes "runQuery sy query w = Some (Inl e, w')"
  shows "closed w' = closed w"
proof (cases "new_MCPClient sy")
  case (Inl e')
  then show ?thesis using assms by (auto simp: runQuery_def)
next
  case (Inr client)
  note cl = this
  obtain r c1 w1 where co: "connectToServers sy client w = (r, c1, w1)"
    by (cases "connectToServers sy client w")
  have w1: "closed w1 = closed w"
  proof (cases "config sy")
    case (Inl e')
    then show ?thesis using co by (auto simp: connectToServers_def)
  next
    case (Inr mcpServers)
    obtain r0 c0 w0' where lp: "connect_loop sy mcpServers [] client w = (r0, c0, w0')"
      by (cases "connect_loop sy mcpServers [] client w")
    from connect_loop_connections [OF lp] have "closed w0' = closed w" by simp
    moreover have "w1 = w0'" using co Inr lp
      by (auto simp: connectToServers_def split: sum.splits)
    ultimately show ?thesis by simp
  qed
  show ?thesis
  proof (cases r)
    case (Inl e')
    then show ?thesis using assms cl co w1 by (auto simp: runQuery_def)
  next
    case (Inr u)
    with assms cl co obtain w2 where pq: "processQuery sy c1 query w1 = Some (Inl e, w2)"
      and "w' = w2"
      by (auto simp: runQuery_def cleanup_def split: option.splits sum.splits prod.splits)
    with processQuery_connections [OF pq] w1 show ?thesis by simp
  qed
qed

lemma runQuery_success_example:
  "runQuery (sys0\<lparr>llm := llm_text\<rparr>) ''What is 2 + 2?'' w0 =
     Some (Inr [Step text_step ''2 + 2 = 4'', Step text_step ''Anything else?''],
           \<lparr> model_calls = [[UserText ''What is 2 + 2?'']], tool_calls = [],
             opened = [''math-server''], closed = [''math-server''] \<rparr>)"
  by (simp add: runQuery_def new_MCPClient_def fresh_client_def sys0_def connectToServers_def
      connect_math_def math_server_def ListTools_handler_def processQuery_def llm_text_def
      w0_def conversation.simps cleanup_def)

lemma runQuery_discovery_error_leaks:
  "runQuery sys_two ''What is 2 + 2?'' w0 =
     Some (Inl (Error ''spawn ENOENT''),
           \<lparr> model_calls = [], tool_calls = [], opened = [''math-server''], closed = [] \<rparr>)"
  by (simp add: runQuery_def new_MCPClient_def fresh_client_def sys_two_def sys0_def
      connectToServers_def connect_first_only_def math_server_def ListTools_handler_def
      resolvedArgs_def path_isAbsolute_def path_resolve_def normalizeString_def
      normalize_step_def w0_def)

text \<open>
  C1 does not hold of the code. \<open>runQuery\<close> calls \<open>cleanup\<close> after \<open>processQuery\<close> without
  a \<open>finally\<close>: here the math server is connected, the first request to the reasoning
  model raises, and \<open>runQuery\<close> raises that error with the connection to the math server
  still open, \<open>close\<close> never called.
\<close>

theorem runQuery_model_error_leaks:
  "runQuery sys0 ''What is 171 factorial?'' w0 =
     Some (Inl (Error ''529 overloaded''),
           \<lparr> model_calls = [[UserText ''What is 171 factorial?'']], tool_calls = [],
             opened = [''math-server''], closed = [] \<rparr>)
   \<and> still_open \<lparr> model_calls = [[UserText ''What is 171 factorial?'']], tool_calls = [],
             opened = [''math-server''], closed = [] \<rparr> = [''math-server'']"
  by (simp add: runQuery_def new_MCPClient_def fresh_client_def sys0_def connectToServers_def
      connect_math_def math_server_def ListTools_handler_def processQuery_def llm_down_def
      w0_def still_open_def)

end
